theory Spec2Isabelle
  imports Complex_Main "HOL-Library.Word" "HOL-Library.AList"
begin

section \<open>Common values\<close>

text \<open>
  Python exceptions are values. Only the classes the modelled code raises or catches
  appear; \<open>str_exc\<close> is Python's \<open>str(e)\<close>.
\<close>

datatype py_exc = ValueError string | RuntimeError string | IndexError string

fun str_exc :: "py_exc \<Rightarrow> string" where
  "str_exc (ValueError m) = m"
| "str_exc (RuntimeError m) = m"
| "str_exc (IndexError m) = m"

type_synonym byte = "8 word"
type_synonym bytes = "byte list"

text \<open>
  HOL strings are byte strings; the accented letters of the source's messages are written
  as their UTF-8 bytes.
\<close>

definition a_acute :: string where "a_acute = [CHR 0xC3, CHR 0xA1]"
definition e_acute :: string where "e_acute = [CHR 0xC3, CHR 0xA9]"
definition i_acute :: string where "i_acute = [CHR 0xC3, CHR 0xAD]"
definition o_acute :: string where "o_acute = [CHR 0xC3, CHR 0xB3]"
definition inv_question :: string where "inv_question = [CHR 0xC2, CHR 0xBF]"
definition inv_exclam :: string where "inv_exclam = [CHR 0xC2, CHR 0xA1]"

text \<open>\<open>os.urandom(n)\<close>: the first \<open>n\<close> bytes of the entropy source of this call.\<close>

definition os_urandom :: "(nat \<Rightarrow> byte) \<Rightarrow> nat \<Rightarrow> bytes" where
  "os_urandom rnd n = map rnd [0..<n]"

section \<open>app/crypto/kyber.py\<close>

text \<open>
  \<open>KyberManager\<close> drives the RSA primitives of the \<open>cryptography\<close> package, which is
  not part of the repository. A key object carries the numbers of an RSA key and the bit
  size it was generated for. Of the package, the formats are modelled: the DER encodings
  of a public key (SubjectPublicKeyInfo) and of a private key (PKCS8), the octet string
  of a ciphertext, and base64. The parts whose output the repository never inspects
  (prime generation, the DER decoder, the OAEP padding with MGF1/SHA-256) are parameters,
  gathered in \<open>crypto_lib\<close>.
\<close>

record rsa_public_key =
  pub_n :: nat
  pub_e :: nat
  pub_key_size :: nat

record rsa_private_key =
  priv_n :: nat
  priv_e :: nat
  priv_d :: nat
  priv_p :: nat
  priv_q :: nat
  priv_dmp1 :: nat
  priv_dmq1 :: nat
  priv_iqmp :: nat
  priv_key_size :: nat

text \<open>The numbers the key generator picks: modulus, private exponent, primes, CRT values.\<close>

record rsa_numbers =
  num_n :: nat
  num_d :: nat
  num_p :: nat
  num_q :: nat
  num_dmp1 :: nat
  num_dmq1 :: nat
  num_iqmp :: nat

record crypto_lib =
  rsa_primes :: "nat \<Rightarrow> py_exc + rsa_numbers"
  load_der_public_key :: "bytes \<Rightarrow> py_exc + rsa_public_key"
  oaep_encode :: "nat \<Rightarrow> bytes \<Rightarrow> py_exc + nat"
  entropy :: "nat \<Rightarrow> byte"

text \<open>
  \<open>rsa.generate_private_key(public_exponent, key_size)\<close>: the package picks the numbers
  (or raises); the key object reports the requested size.
\<close>

definition generate_private_key :: "crypto_lib \<Rightarrow> nat \<Rightarrow> nat \<Rightarrow> py_exc + rsa_private_key" where
  "generate_private_key L public_exponent ksize =
     (case rsa_primes L ksize of
        Inl e \<Rightarrow> Inl e
      | Inr v \<Rightarrow>
          Inr \<lparr>priv_n = num_n v, priv_e = public_exponent, priv_d = num_d v,
               priv_p = num_p v, priv_q = num_q v, priv_dmp1 = num_dmp1 v,
               priv_dmq1 = num_dmq1 v, priv_iqmp = num_iqmp v, priv_key_size = ksize\<rparr>)"

text \<open>
  What the generator promises of the numbers for a key of \<open>ksize\<close> bits: the modulus has
  exactly \<open>ksize\<close> bits, the primes have half as many, and the private exponent and the
  CRT values are reduced.
\<close>

definition rsa_numbers_ok :: "nat \<Rightarrow> rsa_numbers \<Rightarrow> bool" where
  "rsa_numbers_ok ksize v \<longleftrightarrow>
     2 ^ (ksize - 1) \<le> num_n v \<and> num_n v < 2 ^ ksize \<and> num_d v < num_n v \<and>
     num_p v < 2 ^ (ksize div 2) \<and> num_q v < 2 ^ (ksize div 2) \<and>
     num_dmp1 v < num_p v \<and> num_dmq1 v < num_q v \<and> num_iqmp v < num_p v"

definition keygen_ok :: "crypto_lib \<Rightarrow> bool" where
  "keygen_ok L \<longleftrightarrow> (\<forall>ksize v. rsa_primes L ksize = Inr v \<longrightarrow> rsa_numbers_ok ksize v)"

definition public_key_of :: "rsa_private_key \<Rightarrow> rsa_public_key" where
  "public_key_of k = \<lparr>pub_n = priv_n k, pub_e = priv_e k, pub_key_size = priv_key_size k\<rparr>"

text \<open>
  DER (X.690): the shortest big-endian bytes of a number, the length octets, a
  tag-length-value, INTEGER (a zero byte in front when the top bit is set) and SEQUENCE.
\<close>

function be_bytes :: "nat \<Rightarrow> bytes" where
  "be_bytes n =
     (if n < 256 then [word_of_nat n] else be_bytes (n div 256) @ [word_of_nat (n mod 256)])"
  by pat_completeness auto
termination
  by (relation "measure id") auto

declare be_bytes.simps [simp del]

definition der_length :: "nat \<Rightarrow> bytes" where
  "der_length l =
     (if l < 128 then [word_of_nat l]
      else word_of_nat (128 + length (be_bytes l)) # be_bytes l)"

definition der_tlv :: "byte \<Rightarrow> bytes \<Rightarrow> bytes" where
  "der_tlv tag body = tag # der_length (length body) @ body"

definition der_integer :: "nat \<Rightarrow> bytes" where
  "der_integer n =
     der_tlv 0x02 (case be_bytes n of
                     [] \<Rightarrow> [0]
                   | b # bs \<Rightarrow> if 128 \<le> unat b then 0 # b # bs else b # bs)"

definition der_sequence :: "bytes list \<Rightarrow> bytes" where
  "der_sequence items = der_tlv 0x30 (concat items)"

text \<open>The AlgorithmIdentifier of \<open>rsaEncryption\<close> (1.2.840.113549.1.1.1) with NULL.\<close>

definition rsa_algorithm_identifier :: bytes where
  "rsa_algorithm_identifier =
     der_sequence [der_tlv 0x06 [0x2A, 0x86, 0x48, 0x86, 0xF7, 0x0D, 0x01, 0x01, 0x01],
                   der_tlv 0x05 []]"

text \<open>
  \<open>public_bytes(DER, SubjectPublicKeyInfo)\<close> and
  \<open>private_bytes(DER, PKCS8, NoEncryption())\<close>.
\<close>

definition der_public :: "rsa_public_key \<Rightarrow> bytes" where
  "der_public k =
     der_sequence [rsa_algorithm_identifier,
                   der_tlv 0x03 (0 # der_sequence [der_integer (pub_n k),
                                                   der_integer (pub_e k)])]"

definition der_private :: "rsa_private_key \<Rightarrow> bytes" where
  "der_private k =
     der_sequence [der_integer 0, rsa_algorithm_identifier,
                   der_tlv 0x04 (der_sequence
                     [der_integer 0, der_integer (priv_n k), der_integer (priv_e k),
                      der_integer (priv_d k), der_integer (priv_p k),
                      der_integer (priv_q k), der_integer (priv_dmp1 k),
                      der_integer (priv_dmq1 k), der_integer (priv_iqmp k)])]"

text \<open>\<open>base64.b64encode(...).decode("utf-8")\<close>.\<close>

definition b64_alphabet :: string where
  "b64_alphabet = ''ABCDEFGHIJKLMNOPQRSTUVWXYZabcdefghijklmnopqrstuvwxyz0123456789+/''"

definition b64_char :: "nat \<Rightarrow> char" where
  "b64_char i = b64_alphabet ! (i mod 64)"

fun b64encode :: "bytes \<Rightarrow> string" where
  "b64encode [] = []"
| "b64encode [a] =
     [b64_char (unat a div 4), b64_char (unat a mod 4 * 16), CHR ''='', CHR ''='']"
| "b64encode [a, b] =
     [b64_char (unat a div 4), b64_char (unat a mod 4 * 16 + unat b div 16),
      b64_char (unat b mod 16 * 4), CHR ''='']"
| "b64encode (a # b # c # rest) =
     [b64_char (unat a div 4), b64_char (unat a mod 4 * 16 + unat b div 16),
      b64_char (unat b mod 16 * 4 + unat c div 64), b64_char (unat c mod 64)]
     @ b64encode rest"

text \<open>
  The octet string of an RSA ciphertext (RFC 8017, I2OSP): \<open>k\<close> big-endian bytes, an
  error when the integer does not fit.
\<close>

definition i2osp :: "nat \<Rightarrow> nat \<Rightarrow> py_exc + bytes" where
  "i2osp x k =
     (if 256 ^ k \<le> x then Inl (ValueError ''integer too large'')
      else Inr (map (\<lambda>i. word_of_nat (x div 256 ^ (k - 1 - i))) [0..<k]))"

text \<open>
  \<open>public_key.encrypt(message, OAEP(...))\<close>: pad to an integer representative, raise it
  to the public exponent modulo \<open>n\<close>, and return it on \<open>k\<close> bytes, \<open>k\<close> the byte length
  of the modulus.
\<close>

definition rsa_encrypt :: "crypto_lib \<Rightarrow> rsa_public_key \<Rightarrow> bytes \<Rightarrow> py_exc + bytes" where
  "rsa_encrypt L pk message =
     (let k = (pub_key_size pk + 7) div 8 in
      case oaep_encode L k message of
        Inl e \<Rightarrow> Inl e
      | Inr em \<Rightarrow> i2osp (em ^ pub_e pk mod pub_n pk) k)"

record stored_keypair =
  kp_public_key :: bytes
  kp_secret_key :: bytes
  kp_private_key_obj :: rsa_private_key
  kp_public_key_obj :: rsa_public_key

record KyberManager =
  parameter_set :: string
  key_size :: nat
  keypair :: "stored_keypair option"

record keypair_b64 =
  public_key :: string
  secret_key :: string

definition key_sizes :: "(string \<times> nat) list" where
  "key_sizes = [(''kyber512'', 2048), (''kyber768'', 3072), (''kyber1024'', 4096)]"

text \<open>
  \<open>str.lower()\<close> belongs to the Python runtime and covers all of Unicode; the functions
  that call it take it as the parameter \<open>str_lower\<close>.
\<close>

definition KyberManager_init :: "(string \<Rightarrow> string) \<Rightarrow> string \<Rightarrow> py_exc + KyberManager" where
  "KyberManager_init str_lower pset =
     (case map_of key_sizes (str_lower pset) of
        None \<Rightarrow>
          Inl (ValueError (''Conjunto de par'' @ a_acute @ ''metros inv'' @ a_acute
                           @ ''lido. Debe ser uno de: ['' @ [CHR 0x27] @ ''kyber512''
                           @ [CHR 0x27] @ '', '' @ [CHR 0x27] @ ''kyber768'' @ [CHR 0x27]
                           @ '', '' @ [CHR 0x27] @ ''kyber1024'' @ [CHR 0x27] @ '']''))
      | Some ks \<Rightarrow> Inr \<lparr>parameter_set = str_lower pset, key_size = ks, keypair = None\<rparr>)"

definition generate_keypair ::
  "crypto_lib \<Rightarrow> KyberManager \<Rightarrow> (py_exc + keypair_b64) \<times> KyberManager" where
  "generate_keypair L km =
     (case generate_private_key L 65537 (key_size km) of
        Inl e \<Rightarrow>
          (Inl (RuntimeError (''Error al generar par de claves simulado: '' @ str_exc e)), km)
      | Inr private_key \<Rightarrow>
          (let pubk = public_key_of private_key;
               public_bytes = der_public pubk;
               private_bytes = der_private private_key
           in (Inr \<lparr>public_key = b64encode public_bytes,
                     secret_key = b64encode private_bytes\<rparr>,
               km\<lparr>keypair := Some \<lparr>kp_public_key = public_bytes,
                                     kp_secret_key = private_bytes,
                                     kp_private_key_obj = private_key,
                                     kp_public_key_obj = pubk\<rparr>\<rparr>)))"

definition encapsulate ::
  "crypto_lib \<Rightarrow> KyberManager \<Rightarrow> bytes option \<Rightarrow> py_exc + bytes \<times> bytes" where
  "encapsulate L km pkb =
     (case (case pkb of
              None \<Rightarrow>
                (case keypair km of
                   None \<Rightarrow> Inl (ValueError (''No hay clave p'' @ [CHR 0xC3, CHR 0xBA]
                                              @ ''blica disponible''))
                 | Some kp \<Rightarrow> Inr (kp_public_key_obj kp))
            | Some b \<Rightarrow> load_der_public_key L b) of
        Inl e \<Rightarrow> Inl e
      | Inr public_key_obj \<Rightarrow>
          (let shared_key = os_urandom (entropy L) 32 in
           case rsa_encrypt L public_key_obj shared_key of
             Inl e \<Rightarrow>
               Inl (RuntimeError (''Error al encapsular clave compartida: '' @ str_exc e))
           | Inr ciphertext \<Rightarrow> Inr (shared_key, ciphertext)))"

record algorithm_details =
  det_name :: string
  claimed_nist_level :: nat
  public_key_length :: nat
  secret_key_length :: nat
  ciphertext_length :: nat
  shared_key_length :: nat
  det_version :: string
  is_kem :: bool
  det_note :: string

definition details_row :: "string \<Rightarrow> nat \<Rightarrow> nat \<Rightarrow> nat \<Rightarrow> nat \<Rightarrow> nat \<Rightarrow> algorithm_details" where
  "details_row nm lvl pk sk ct ss =
     \<lparr>det_name = nm, claimed_nist_level = lvl, public_key_length = pk,
      secret_key_length = sk, ciphertext_length = ct, shared_key_length = ss,
      det_version = ''Simulaci'' @ o_acute @ ''n educativa'', is_kem = True,
      det_note = ''Esta es una simulaci'' @ o_acute @ ''n educativa de Kyber usando RSA''\<rparr>"

definition details :: "(string \<times> algorithm_details) list" where
  "details =
     [(''kyber512'', details_row ''CRYSTALS-Kyber-512'' 1 800 1632 768 32),
      (''kyber768'', details_row ''CRYSTALS-Kyber-768'' 3 1184 2400 1088 32),
      (''kyber1024'', details_row ''CRYSTALS-Kyber-1024'' 5 1568 3168 1568 32)]"

definition get_algorithm_details :: "(string \<Rightarrow> string) \<Rightarrow> string \<Rightarrow> algorithm_details" where
  "get_algorithm_details str_lower variant =
     (case map_of details (str_lower variant) of
        Some result \<Rightarrow> result
      | None \<Rightarrow> details_row ''CRYSTALS-Kyber-768'' 3 1184 2400 1088 32)"

text \<open>
  For the concrete checks below: \<open>str.lower()\<close> as it acts on ASCII text, a library
  instance whose generator returns numbers of the promised sizes, and the manager after
  key generation.
\<close>

definition lower_char :: "char \<Rightarrow> char" where
  "lower_char c =
     (if (65::nat) \<le> of_char c \<and> (of_char c :: nat) \<le> 90
      then char_of ((of_char c :: nat) + 32) else c)"

definition ascii_lower :: "string \<Rightarrow> string" where
  "ascii_lower s = map lower_char s"

definition demo_numbers :: "nat \<Rightarrow> rsa_numbers" where
  "demo_numbers ksize =
     \<lparr>num_n = 2 ^ ksize - 1, num_d = 2 ^ ksize - 3,
      num_p = 2 ^ (ksize div 2) - 1, num_q = 2 ^ (ksize div 2) - 3,
      num_dmp1 = 2 ^ (ksize div 2) - 5, num_dmq1 = 2 ^ (ksize div 2) - 7,
      num_iqmp = 2 ^ (ksize div 2) - 9\<rparr>"

definition demo_lib :: crypto_lib where
  "demo_lib =
     \<lparr>rsa_primes = (\<lambda>ksize. if 512 \<le> ksize then Inr (demo_numbers ksize)
                             else Inl (ValueError ''key_size must be at least 512-bits.'')),
      load_der_public_key = (\<lambda>b. Inl (ValueError ''Could not deserialize key data'')),
      oaep_encode = (\<lambda>k m. Inr 2),
      entropy = (\<lambda>i. 0)\<rparr>"

definition demo_manager :: "string \<Rightarrow> KyberManager" where
  "demo_manager pset =
     (case KyberManager_init ascii_lower pset of
        Inl e \<Rightarrow> \<lparr>parameter_set = [], key_size = 0, keypair = None\<rparr>
      | Inr km \<Rightarrow> snd (generate_keypair demo_lib km))"

definition demo_encapsulated :: "py_exc + bytes \<times> bytes" where
  "demo_encapsulated = encapsulate demo_lib (demo_manager ''kyber512'') None"

text \<open>The byte lengths of what \<open>encapsulate\<close> returned: shared key, ciphertext.\<close>

definition encapsulated_lengths :: "py_exc + bytes \<times> bytes \<Rightarrow> (nat \<times> nat) option" where
  "encapsulated_lengths r =
     (case r of Inl e \<Rightarrow> None | Inr (ss, ct) \<Rightarrow> Some (length ss, length ct))"

section \<open>app/crypto/symmetric.py\<close>

text \<open>
  \<open>AESGCMCipher\<close> wraps the AES-GCM primitive of the \<open>cryptography\<close> package, which
  is a parameter: \<open>aesgcm_encrypt key nonce data aad\<close> and \<open>aesgcm_decrypt\<close>, each with
  the exceptions it can raise.
\<close>

datatype aead_outcome = Plain bytes | InvalidTag | OtherError string

record aead_lib =
  aesgcm_encrypt :: "bytes \<Rightarrow> bytes \<Rightarrow> bytes \<Rightarrow> bytes option \<Rightarrow> py_exc + bytes"
  aesgcm_decrypt :: "bytes \<Rightarrow> bytes \<Rightarrow> bytes \<Rightarrow> bytes option \<Rightarrow> aead_outcome"

record AESGCMCipher =
  cipher_key :: bytes

record encrypted =
  nonce :: bytes
  ciphertext :: bytes

definition AESGCMCipher_init :: "(nat \<Rightarrow> byte) \<Rightarrow> bytes option \<Rightarrow> py_exc + AESGCMCipher" where
  "AESGCMCipher_init rnd key =
     (case key of
        None \<Rightarrow> Inr \<lparr>cipher_key = os_urandom rnd 32\<rparr>
      | Some k \<Rightarrow>
          if length k \<noteq> 32
          then Inl (ValueError ''La clave debe tener 32 bytes (256 bits) para AES-256'')
          else Inr \<lparr>cipher_key = k\<rparr>)"

definition encrypt ::
  "aead_lib \<Rightarrow> (nat \<Rightarrow> byte) \<Rightarrow> AESGCMCipher \<Rightarrow> bytes \<Rightarrow> bytes option \<Rightarrow> py_exc + encrypted" where
  "encrypt A rnd self plaintext associated_data =
     (let n = os_urandom rnd 12 in
      case aesgcm_encrypt A (cipher_key self) n plaintext associated_data of
        Inl e \<Rightarrow> Inl (RuntimeError (''Error al cifrar datos: '' @ str_exc e))
      | Inr ct \<Rightarrow> Inr \<lparr>nonce = n, ciphertext = ct\<rparr>)"

definition decrypt ::
  "aead_lib \<Rightarrow> AESGCMCipher \<Rightarrow> bytes \<Rightarrow> bytes \<Rightarrow> bytes option \<Rightarrow> py_exc + bytes" where
  "decrypt A self n ct associated_data =
     (case aesgcm_decrypt A (cipher_key self) n ct associated_data of
        Plain plaintext \<Rightarrow> Inr plaintext
      | InvalidTag \<Rightarrow>
          Inl (ValueError (''Autenticaci'' @ o_acute
                           @ ''n fallida: los datos pueden haber sido manipulados''))
      | OtherError m \<Rightarrow> Inl (RuntimeError (''Error al descifrar datos: '' @ m)))"

text \<open>
  What the package promises of AES-GCM under a 256-bit key and a 96-bit nonce: a
  ciphertext it produced decrypts, under the same key, nonce and associated data, to the
  plaintext it was made from.
\<close>

definition aead_correct :: "aead_lib \<Rightarrow> bool" where
  "aead_correct A \<longleftrightarrow>
     (\<forall>k n m aad ct. length k = 32 \<longrightarrow> length n = 12 \<longrightarrow>
        aesgcm_encrypt A k n m aad = Inr ct \<longrightarrow> aesgcm_decrypt A k n ct aad = Plain m)"

text \<open>
  A small instance of the parameter for the concrete checks: the tag is 16 bytes taken
  from the associated data and the key, the data is carried as it is.
\<close>

definition demo_tag :: "bytes \<Rightarrow> bytes option \<Rightarrow> bytes" where
  "demo_tag k aad = take 16 ((case aad of None \<Rightarrow> [] | Some a \<Rightarrow> a) @ k @ replicate 16 0)"

definition demo_aead :: aead_lib where
  "demo_aead =
     \<lparr>aesgcm_encrypt = (\<lambda>k n m aad. Inr (m @ demo_tag k aad)),
      aesgcm_decrypt = (\<lambda>k n ct aad.
         if 16 \<le> length ct \<and> drop (length ct - 16) ct = demo_tag k aad
         then Plain (take (length ct - 16) ct) else InvalidTag)\<rparr>"

section \<open>app/core/config.py\<close>

record server =
  srv_id :: string
  srv_name :: string
  srv_location :: string
  srv_ip :: string
  srv_port :: int
  srv_status :: string
  srv_latency :: "int option"

record settings =
  SECRET_KEY :: string
  ACCESS_TOKEN_EXPIRE_MINUTES :: int
  VPN_SUBNET :: string
  TUN_NAME :: string
  KYBER_PARAMETER :: string
  VPN_SERVERS :: "server list"

definition default_settings :: settings where
  "default_settings =
     \<lparr>SECRET_KEY = ''insecure_default_key_please_change_in_production'',
      ACCESS_TOKEN_EXPIRE_MINUTES = 60 * 24 * 8,
      VPN_SUBNET = ''10.8.0.0/24'',
      TUN_NAME = ''tun0'',
      KYBER_PARAMETER = ''kyber768'',
      VPN_SERVERS =
        [\<lparr>srv_id = ''server1'', srv_name = ''Servidor Principal'',
          srv_location = ''Madrid, Espa'' @ [CHR 0xC3, CHR 0xB1] @ ''a'',
          srv_ip = ''192.168.1.1'', srv_port = 1194, srv_status = ''online'',
          srv_latency = Some 25\<rparr>,
         \<lparr>srv_id = ''server2'', srv_name = ''Servidor Respaldo'',
          srv_location = ''Barcelona, Espa'' @ [CHR 0xC3, CHR 0xB1] @ ''a'',
          srv_ip = ''192.168.1.2'', srv_port = 1194, srv_status = ''online'',
          srv_latency = Some 35\<rparr>,
         \<lparr>srv_id = ''server3'', srv_name = ''Servidor Internacional'',
          srv_location = ''Frankfurt, Alemania'',
          srv_ip = ''192.168.1.3'', srv_port = 1194, srv_status = ''online'',
          srv_latency = Some 50\<rparr>]\<rparr>"

section \<open>app/network/tun.py\<close>

record tun_interface =
  if_name :: string
  if_ip :: string
  if_netmask :: string
  if_mtu :: int
  is_up :: bool

record TunManager =
  tun_name :: string
  tun_mode :: string
  tun_mtu :: int
  interface :: "tun_interface option"
  running :: bool

definition TunManager_init :: "string \<Rightarrow> string \<Rightarrow> int \<Rightarrow> py_exc + TunManager" where
  "TunManager_init nm md m =
     (if md \<notin> set [''tun'', ''tap'']
      then Inl (ValueError (''El modo debe ser '' @ [CHR 0x27] @ ''tun'' @ [CHR 0x27]
                            @ '' o '' @ [CHR 0x27] @ ''tap'' @ [CHR 0x27]))
      else Inr \<lparr>tun_name = nm, tun_mode = md, tun_mtu = m, interface = None,
                running = False\<rparr>)"

definition TunManager_stop :: "TunManager \<Rightarrow> TunManager" where
  "TunManager_stop self =
     self\<lparr>running := False,
          interface := map_option (\<lambda>i. i\<lparr>is_up := False\<rparr>) (interface self)\<rparr>"

section \<open>app/network/vpn.py\<close>

text \<open>
  The slice of the standard \<open>ipaddress\<close> module that \<open>connect\<close> uses: a parsed IPv4
  network, indexing into it (IndexError past the broadcast address) and the dotted form
  of an address. Parsing the CIDR text is a parameter of the environment.
\<close>

record ipv4_network =
  network_address :: nat
  prefixlen :: nat

definition broadcast_address :: "ipv4_network \<Rightarrow> nat" where
  "broadcast_address net = network_address net + 2 ^ (32 - prefixlen net) - 1"

definition network_getitem :: "ipv4_network \<Rightarrow> nat \<Rightarrow> py_exc + nat" where
  "network_getitem net n =
     (if network_address net + n > broadcast_address net
      then Inl (IndexError ''address out of range'')
      else Inr (network_address net + n))"

definition digit_char :: "nat \<Rightarrow> char" where
  "digit_char d = ''0123456789'' ! (d mod 10)"

definition octet_str :: "nat \<Rightarrow> string" where
  "octet_str n =
     (if n < 10 then [digit_char n]
      else if n < 100 then [digit_char (n div 10), digit_char (n mod 10)]
      else [digit_char (n div 100), digit_char (n div 10 mod 10), digit_char (n mod 10)])"

definition ipv4_str :: "nat \<Rightarrow> string" where
  "ipv4_str a =
     octet_str (a div 2 ^ 24 mod 256) @ ''.'' @ octet_str (a div 2 ^ 16 mod 256) @ ''.''
     @ octet_str (a div 2 ^ 8 mod 256) @ ''.'' @ octet_str (a mod 256)"

text \<open>
  The state of a \<open>VPNManager\<close>. A reading of \<open>time.time()\<close> is the rational value
  of the float, and \<open>py_int\<close> is \<open>int()\<close> on it, which truncates towards zero.
  \<open>status_task\<close> holds the index
  of the telemetry task in \<open>tasks\<close>, the event loop's table of the tasks created so far;
  \<open>stopped_tuns\<close> lists the TUN objects on which \<open>stop\<close> has run.
\<close>

datatype task_state = Running | CancelRequested | Done

definition py_int :: "rat \<Rightarrow> int" where
  "py_int x = (if 0 \<le> x then \<lfloor>x\<rfloor> else \<lceil>x\<rceil>)"

record VPNManager =
  kyber :: KyberManager
  aes :: "AESGCMCipher option"
  tun :: "TunManager option"
  connected :: bool
  server :: "server option"
  connection_time :: rat
  vpn_ip :: "string option"
  bytes_sent :: int
  bytes_received :: int
  latency :: int
  status_task :: "nat option"
  tasks :: "task_state list"
  stopped_tuns :: "TunManager list"

record connect_result =
  success :: bool
  message :: string
  vpnIp :: "string option"

record VpnStatus =
  st_connected :: bool
  uptime :: int
  bytesReceived :: int
  bytesSent :: int
  st_latency :: int
  st_vpnIp :: "string option"
  server_id :: "string option"

text \<open>What one call of \<open>connect\<close> gets from outside the manager.\<close>

record vpn_env =
  lib :: crypto_lib
  IPv4Network :: "string \<Rightarrow> py_exc + ipv4_network"
  time_time :: rat
  create_task_exc :: "py_exc option"

definition VPNManager_init :: "(string \<Rightarrow> string) \<Rightarrow> settings \<Rightarrow> py_exc + VPNManager" where
  "VPNManager_init str_lower cfg =
     (case KyberManager_init str_lower (KYBER_PARAMETER cfg) of
        Inl e \<Rightarrow> Inl e
      | Inr km \<Rightarrow>
          Inr \<lparr>kyber = km, aes = None, tun = None, connected = False, server = None,
               connection_time = 0, vpn_ip = None, bytes_sent = 0, bytes_received = 0,
               latency = 0, status_task = None, tasks = [], stopped_tuns = []\<rparr>)"

text \<open>\<open>task.cancel()\<close> and \<open>await task\<close> on a task that has been asked to stop.\<close>

definition cancel_task :: "nat \<Rightarrow> task_state list \<Rightarrow> task_state list" where
  "cancel_task t ts = (if t < length ts \<and> ts ! t = Running then ts[t := CancelRequested] else ts)"

definition await_task :: "nat \<Rightarrow> task_state list \<Rightarrow> task_state list" where
  "await_task t ts = (if t < length ts \<and> ts ! t = CancelRequested then ts[t := Done] else ts)"

definition cleanup :: "VPNManager \<Rightarrow> VPNManager" where
  "cleanup self =
     (let s1 = (case status_task self of
                  None \<Rightarrow> self
                | Some t \<Rightarrow>
                    self\<lparr>tasks := await_task t (cancel_task t (tasks self)),
                         status_task := None\<rparr>);
          s2 = (case tun s1 of
                  None \<Rightarrow> s1
                | Some T \<Rightarrow>
                    s1\<lparr>stopped_tuns := stopped_tuns s1 @ [TunManager_stop T], tun := None\<rparr>)
      in s2\<lparr>connected := False, server := None, connection_time := 0, vpn_ip := None,
            bytes_sent := 0, bytes_received := 0, latency := 0, aes := None\<rparr>)"

definition find_server :: "server list \<Rightarrow> string \<Rightarrow> server option" where
  "find_server servers sid = find (\<lambda>s. srv_id s = sid) servers"

text \<open>
  The \<open>try\<close> block of \<open>connect\<close>, statement by statement. An exception leaves with the
  manager as the statements before it have left it.
\<close>

definition connect_body ::
  "settings \<Rightarrow> vpn_env \<Rightarrow> server \<Rightarrow> VPNManager \<Rightarrow> py_exc \<times> VPNManager + VPNManager" where
  "connect_body cfg env srv self =
     (case generate_keypair (lib env) (kyber self) of
        (Inl e, km) \<Rightarrow> Inl (e, self\<lparr>kyber := km\<rparr>)
      | (Inr kp, km) \<Rightarrow>
     (let s1 = self\<lparr>kyber := km\<rparr> in
      case encapsulate (lib env) km None of
        Inl e \<Rightarrow> Inl (e, s1)
      | Inr (shared_key, ct) \<Rightarrow>
     (case AESGCMCipher_init (entropy (lib env)) (Some shared_key) of
        Inl e \<Rightarrow> Inl (e, s1)
      | Inr cipher \<Rightarrow>
     (let s2 = s1\<lparr>aes := Some cipher\<rparr> in
      case TunManager_init (TUN_NAME cfg) ''tun'' 1500 of
        Inl e \<Rightarrow> Inl (e, s2)
      | Inr T \<Rightarrow>
     (let s3 = s2\<lparr>tun := Some T\<rparr> in
      case IPv4Network env (VPN_SUBNET cfg) of
        Inl e \<Rightarrow> Inl (e, s3)
      | Inr subnet \<Rightarrow>
     (case network_getitem subnet 2 of
        Inl e \<Rightarrow> Inl (e, s3)
      | Inr addr \<Rightarrow>
     (let s4 = s3\<lparr>vpn_ip := Some (ipv4_str addr)\<rparr>;
          s5 = s4\<lparr>server := Some srv, connected := True,
                  connection_time := time_time env, bytes_sent := 0, bytes_received := 0,
                  latency := (case srv_latency srv of None \<Rightarrow> 0 | Some l \<Rightarrow> l)\<rparr>
      in case create_task_exc env of
           Some e \<Rightarrow> Inl (e, s5)
         | None \<Rightarrow>
             Inr (s5\<lparr>tasks := tasks s5 @ [Running],
                     status_task := Some (length (tasks s5))\<rparr>))))))))"

definition connect ::
  "settings \<Rightarrow> vpn_env \<Rightarrow> string \<Rightarrow> VPNManager \<Rightarrow> connect_result \<times> VPNManager" where
  "connect cfg env sid self =
     (if connected self
      then (\<lparr>success = False,
             message = ''Ya existe una conexi'' @ o_acute @ ''n VPN activa'',
             vpnIp = None\<rparr>, self)
      else case find_server (VPN_SERVERS cfg) sid of
        None \<Rightarrow>
          (\<lparr>success = False, message = ''Servidor con ID '' @ sid @ '' no encontrado'',
            vpnIp = None\<rparr>, self)
      | Some srv \<Rightarrow>
          (case connect_body cfg env srv self of
             Inr s \<Rightarrow>
               (\<lparr>success = True,
                 message = ''Conexi'' @ o_acute @ ''n establecida con '' @ srv_name srv,
                 vpnIp = vpn_ip s\<rparr>, s)
           | Inl (e, s) \<Rightarrow>
               (\<lparr>success = False,
                 message = ''Error al establecer conexi'' @ o_acute @ ''n: '' @ str_exc e,
                 vpnIp = None\<rparr>, cleanup s)))"

definition disconnect :: "VPNManager \<Rightarrow> connect_result \<times> VPNManager" where
  "disconnect self =
     (if \<not> connected self
      then (\<lparr>success = True, message = ''No hay conexi'' @ o_acute @ ''n activa'',
             vpnIp = None\<rparr>, self)
      else (\<lparr>success = True, message = ''Desconexi'' @ o_acute @ ''n exitosa'',
             vpnIp = None\<rparr>, cleanup self))"

definition get_status :: "rat \<Rightarrow> VPNManager \<Rightarrow> VpnStatus" where
  "get_status now self =
     (if \<not> connected self
      then \<lparr>st_connected = False, uptime = 0, bytesReceived = 0, bytesSent = 0,
            st_latency = 0, st_vpnIp = None, server_id = None\<rparr>
      else \<lparr>st_connected = True, uptime = py_int (now - connection_time self),
            bytesReceived = bytes_received self, bytesSent = bytes_sent self,
            st_latency = latency self, st_vpnIp = vpn_ip self,
            server_id = map_option srv_id (server self)\<rparr>)"

text \<open>
  One turn of the loop of \<open>_update_status_task\<close>, with the two random draws given.
\<close>

definition update_status_tick :: "int \<Rightarrow> int \<Rightarrow> VPNManager \<Rightarrow> VPNManager" where
  "update_status_tick rand_latency traffic_increment self =
     (if connected self
      then self\<lparr>latency := rand_latency,
                bytes_sent := bytes_sent self + traffic_increment,
                bytes_received := bytes_received self + traffic_increment * 2\<rparr>
      else self)"

text \<open>A manager that is not connected holds the values of a fresh one.\<close>

definition idle_clean :: "VPNManager \<Rightarrow> bool" where
  "idle_clean self \<longleftrightarrow>
     (connected self \<or>
      (bytes_sent self = 0 \<and> bytes_received self = 0 \<and> latency self = 0 \<and>
       connection_time self = 0 \<and> vpn_ip self = None \<and> server self = None))"

text \<open>Environments and states for the concrete checks.\<close>

definition demo_network :: "string \<Rightarrow> py_exc + ipv4_network" where
  "demo_network s =
     (if s = ''10.8.0.0/24'' then Inr \<lparr>network_address = 0x0A080000, prefixlen = 24\<rparr>
      else if s = ''10.8.0.1/32'' then Inr \<lparr>network_address = 0x0A080001, prefixlen = 32\<rparr>
      else Inl (ValueError (s @ '' does not appear to be an IPv4 or IPv6 network'')))"

definition demo_env :: vpn_env where
  "demo_env = \<lparr>lib = demo_lib, IPv4Network = demo_network, time_time = 1000,
               create_task_exc = None\<rparr>"

definition fresh_manager :: VPNManager where
  "fresh_manager =
     \<lparr>kyber = \<lparr>parameter_set = ''kyber768'', key_size = 3072, keypair = None\<rparr>,
      aes = None, tun = None, connected = False, server = None,
      connection_time = 0, vpn_ip = None, bytes_sent = 0, bytes_received = 0,
      latency = 0, status_task = None, tasks = [], stopped_tuns = []\<rparr>"

text \<open>What \<open>get_status\<close> reports of a manager that is not connected.\<close>

definition disconnected_status :: VpnStatus where
  "disconnected_status =
     \<lparr>st_connected = False, uptime = 0, bytesReceived = 0, bytesSent = 0,
      st_latency = 0, st_vpnIp = None, server_id = None\<rparr>"

definition failing_env :: vpn_env where
  "failing_env = demo_env\<lparr>create_task_exc := Some (RuntimeError ''no running event loop'')\<rparr>"

definition demo_failed :: "connect_result \<times> VPNManager" where
  "demo_failed = connect default_settings failing_env ''server1'' fresh_manager"

definition connected_manager :: VPNManager where
  "connected_manager = snd (connect default_settings demo_env ''server1'' fresh_manager)"

section \<open>app/core/security.py\<close>

text \<open>
  The JWT of the \<open>jose\<close> package is symbolic here: a token is the claims it was made
  from together with the key that signed it, or any other text. Decoding checks the key
  and the \<open>exp\<close> claim against the clock, as \<open>jwt.decode\<close> does. Password hashing
  (\<open>passlib\<close>) is a parameter. The package turns both the expiry and the clock reading
  into whole seconds (\<open>timegm\<close> of the UTC time tuple) before it compares them.
\<close>

record claims =
  sub :: string
  claim_session_id :: string
  claim_vpn_ip :: string
  exp :: int

datatype token = Signed claims string | Unsigned string

definition create_access_token ::
  "settings \<Rightarrow> int \<Rightarrow> string \<times> string \<times> string \<Rightarrow> int option \<Rightarrow> token" where
  "create_access_token cfg utcnow data expires_delta =
     (let expire = utcnow +
            (case expires_delta of
               None \<Rightarrow> 60 * ACCESS_TOKEN_EXPIRE_MINUTES cfg
             | Some d \<Rightarrow> if d = 0 then 60 * ACCESS_TOKEN_EXPIRE_MINUTES cfg else d)
      in case data of (u, sid, ip) \<Rightarrow>
           Signed \<lparr>sub = u, claim_session_id = sid, claim_vpn_ip = ip, exp = expire\<rparr>
                  (SECRET_KEY cfg))"


section \<open>app/chat/messaging.py\<close>

record datetime =
  dt_year :: nat
  dt_month :: nat
  dt_day :: nat
  dt_hour :: nat
  dt_minute :: nat
  dt_second :: nat
  dt_microsecond :: nat

definition pad2 :: "nat \<Rightarrow> string" where
  "pad2 n = [digit_char (n div 10), digit_char n]"

definition isoformat :: "datetime \<Rightarrow> string" where
  "isoformat d =
     pad2 (dt_year d div 100) @ pad2 (dt_year d) @ ''-'' @ pad2 (dt_month d) @ ''-''
     @ pad2 (dt_day d) @ ''T'' @ pad2 (dt_hour d) @ '':'' @ pad2 (dt_minute d) @ '':''
     @ pad2 (dt_second d)
     @ (if dt_microsecond d = 0 then []
        else ''.'' @ pad2 (dt_microsecond d div 10000) @ pad2 (dt_microsecond d div 100)
             @ pad2 (dt_microsecond d))"

text \<open>
  Addresses and networks of the standard \<open>ipaddress\<close> module, as far as
  \<open>authenticate_user\<close> uses them. Membership is false across versions.
\<close>

datatype ip_addr = IPv4Address nat | IPv6Address nat

datatype ip_net = IPv4Net nat nat | IPv6Net nat nat

fun in_network :: "ip_addr \<Rightarrow> ip_net \<Rightarrow> bool" where
  "in_network (IPv4Address a) (IPv4Net n p) = (n \<le> a \<and> a \<le> n + 2 ^ (32 - p) - 1)"
| "in_network (IPv6Address a) (IPv6Net n p) = (n \<le> a \<and> a \<le> n + 2 ^ (128 - p) - 1)"
| "in_network (IPv4Address a) (IPv6Net n p) = False"
| "in_network (IPv6Address a) (IPv4Net n p) = False"

record User =
  username :: string
  display_name :: string
  is_online :: bool
  last_seen :: "datetime option"
  user_vpn_ip :: "string option"

record user_row =
  row_username :: string
  row_display_name :: string
  hashed_password :: string

record ChatRoom =
  room_id :: string
  room_name :: "string option"
  participants :: "string list"
  is_group :: bool
  created_at :: datetime
  encryption_key :: "string option"

record Message =
  msg_id :: string
  sender :: string
  msg_room_id :: string
  content :: string
  timestamp :: string
  read_by :: "string list"

text \<open>
  The dictionaries of the service keep their insertion order: association lists with
  \<open>AList.update\<close> for \<open>d[k] = v\<close> and \<open>map_of\<close> for lookup.
\<close>

record MessagingService =
  connected_users :: "(string \<times> User) list"
  user_sessions :: "(string \<times> string) list"
  vpn_sessions :: "(string \<times> string) list"
  user_key_pairs :: "(string \<times> keypair_b64) list"
  chat_rooms :: "(string \<times> ChatRoom) list"
  active_connections :: "(string \<times> nat list) list"
  users_db :: "(string \<times> user_row) list"

text \<open>
  What one call into the service gets from outside: the identifiers \<open>uuid.uuid4()\<close>
  draws (as text, by call number), the readings of \<open>datetime.now()\<close> (by call number) and
  of the UTC clock, the parsers of \<open>ipaddress\<close> (\<open>None\<close> is \<open>ValueError\<close>), the
  password hashing of \<open>passlib\<close>, the RSA library and the runtime's \<open>str.lower()\<close>.
\<close>

record msg_env =
  uuid4 :: "nat \<Rightarrow> string"
  datetime_now :: "nat \<Rightarrow> datetime"
  utc_seconds :: int
  ip_address :: "string \<Rightarrow> ip_addr option"
  ip_network :: "string \<Rightarrow> ip_net option"
  get_password_hash :: "string \<Rightarrow> string"
  verify_password :: "string \<Rightarrow> string \<Rightarrow> bool"
  rsa_lib :: crypto_lib
  str_lower :: "string \<Rightarrow> string"

definition MessagingService_init :: "msg_env \<Rightarrow> MessagingService" where
  "MessagingService_init env =
     (let db = [(''usuario1'', \<lparr>row_username = ''usuario1'',
                                row_display_name = ''Usuario Demo 1'',
                                hashed_password = get_password_hash env ''password1''\<rparr>),
                (''usuario2'', \<lparr>row_username = ''usuario2'',
                                row_display_name = ''Usuario Demo 2'',
                                hashed_password = get_password_hash env ''password2''\<rparr>)]
      in \<lparr>connected_users = [], user_sessions = [], vpn_sessions = [],
           user_key_pairs = [],
           chat_rooms = [(''general'', \<lparr>room_id = ''general'',
                                        room_name = Some ''Canal General'',
                                        participants = map fst db, is_group = True,
                                        created_at = datetime_now env 0,
                                        encryption_key = None\<rparr>)],
           active_connections = [(''general'', [])],
           users_db = db\<rparr>)"

record register_result =
  reg_success :: bool
  reg_message :: string

definition register_user ::
  "msg_env \<Rightarrow> string \<Rightarrow> string \<Rightarrow> string \<Rightarrow> MessagingService
     \<Rightarrow> register_result \<times> MessagingService" where
  "register_user env uname password dname self =
     (if map_of (users_db self) uname \<noteq> None
      then (\<lparr>reg_success = False,
             reg_message = ''El nombre de usuario ya est'' @ a_acute @ '' en uso''\<rparr>, self)
      else
        (let s1 = self\<lparr>users_db := AList.update uname
                        \<lparr>row_username = uname, row_display_name = dname,
                         hashed_password = get_password_hash env password\<rparr> (users_db self)\<rparr>;
             s2 = (case map_of (chat_rooms s1) ''general'' of
                     None \<Rightarrow> s1
                   | Some room \<Rightarrow>
                       if uname \<notin> set (participants room)
                       then s1\<lparr>chat_rooms := AList.update ''general''
                                (room\<lparr>participants := participants room @ [uname]\<rparr>)
                                (chat_rooms s1)\<rparr>
                       else s1)
         in (\<lparr>reg_success = True, reg_message = ''Usuario registrado correctamente''\<rparr>,
             s2)))"

record auth_response =
  auth_success :: bool
  auth_message :: string
  auth_token :: "token option"
  auth_user_data :: "(string \<times> string) option"

definition auth_failure :: "string \<Rightarrow> auth_response" where
  "auth_failure m =
     \<lparr>auth_success = False, auth_message = m, auth_token = None, auth_user_data = None\<rparr>"

text \<open>
  The first \<open>try\<close> of \<open>authenticate_user\<close>: \<open>None\<close> when a parser raised
  \<open>ValueError\<close>, otherwise whether the address lies in the VPN network.
\<close>

definition vpn_membership :: "msg_env \<Rightarrow> settings \<Rightarrow> string \<Rightarrow> bool option" where
  "vpn_membership env cfg addr =
     (case ip_address env addr of
        None \<Rightarrow> None
      | Some ip \<Rightarrow>
          (case ip_network env (VPN_SUBNET cfg) of
             None \<Rightarrow> None
           | Some vpn_network \<Rightarrow> Some (in_network ip vpn_network)))"

definition authenticate_user ::
  "msg_env \<Rightarrow> settings \<Rightarrow> string \<Rightarrow> string \<Rightarrow> string \<Rightarrow> MessagingService
     \<Rightarrow> auth_response \<times> MessagingService" where
  "authenticate_user env cfg uname password addr self =
     (case vpn_membership env cfg addr of
        None \<Rightarrow> (auth_failure (''Direcci'' @ o_acute @ ''n IP inv'' @ a_acute @ ''lida''), self)
      | Some False \<Rightarrow>
          (auth_failure (''Autenticaci'' @ o_acute @ ''n solo permitida a trav''
                         @ e_acute @ ''s de la VPN''), self)
      | Some True \<Rightarrow>
     (case map_of (users_db self) uname of
        None \<Rightarrow> (auth_failure ''Usuario no encontrado'', self)
      | Some row \<Rightarrow>
          if \<not> verify_password env password (hashed_password row)
          then (auth_failure ''Credenciales incorrectas'', self)
          else
            (let session_id = uuid4 env 0;
                 tok = create_access_token cfg (utc_seconds env) (uname, session_id, addr) None;
                 s1 = self\<lparr>user_sessions := AList.update session_id uname (user_sessions self),
                           vpn_sessions := AList.update addr uname (vpn_sessions self)\<rparr>;
                 s2 = (case map_of (connected_users s1) uname of
                         None \<Rightarrow>
                           s1\<lparr>connected_users := AList.update uname
                                 \<lparr>username = uname, display_name = row_display_name row,
                                  is_online = True, last_seen = Some (datetime_now env 0),
                                  user_vpn_ip = Some addr\<rparr> (connected_users s1)\<rparr>
                       | Some user \<Rightarrow>
                           s1\<lparr>connected_users := AList.update uname
                                 (user\<lparr>is_online := True, user_vpn_ip := Some addr\<rparr>)
                                 (connected_users s1)\<rparr>)
             in (\<lparr>auth_success = True,
                  auth_message = ''Autenticaci'' @ o_acute @ ''n exitosa'',
                  auth_token = Some tok,
                  auth_user_data = Some (uname, row_display_name row)\<rparr>, s2))))"

text \<open>Python's \<open>xs[:n]\<close> for an integer \<open>n\<close>.\<close>

definition slice_to :: "'a list \<Rightarrow> int \<Rightarrow> 'a list" where
  "slice_to xs n = (if 0 \<le> n then take (nat n) xs else take (nat (int (length xs) + n)) xs)"

definition replace_minute_second :: "datetime \<Rightarrow> nat \<Rightarrow> nat \<Rightarrow> datetime" where
  "replace_minute_second d m s = d\<lparr>dt_minute := m, dt_second := s\<rparr>"

definition sample_messages :: "msg_env \<Rightarrow> string \<Rightarrow> Message list" where
  "sample_messages env rid =
     [\<lparr>msg_id = uuid4 env 0, sender = ''usuario1'', msg_room_id = rid,
       content = ''Hola a todos, '' @ inv_question @ ''c'' @ o_acute @ ''mo est''
                 @ a_acute @ ''n?'',
       timestamp = isoformat (replace_minute_second (datetime_now env 0) 0 0),
       read_by = [''usuario1'']\<rparr>,
      \<lparr>msg_id = uuid4 env 1, sender = ''usuario2'', msg_room_id = rid,
       content = ''Todo bien por aqu'' @ i_acute @ '', la conexi'' @ o_acute
                 @ ''n VPN est'' @ a_acute @ '' funcionando muy bien'',
       timestamp = isoformat (replace_minute_second (datetime_now env 1) 5 30),
       read_by = [''usuario1'', ''usuario2'']\<rparr>,
      \<lparr>msg_id = uuid4 env 2, sender = ''usuario1'', msg_room_id = rid,
       content = inv_exclam @ ''Excelente! La criptograf'' @ i_acute @ ''a post-cu''
                 @ a_acute @ ''ntica hace que sea muy seguro'',
       timestamp = isoformat (replace_minute_second (datetime_now env 2) 10 15),
       read_by = [''usuario1'']\<rparr>]"

definition get_room_messages ::
  "msg_env \<Rightarrow> string \<Rightarrow> int \<Rightarrow> MessagingService \<Rightarrow> Message list" where
  "get_room_messages env rid limit self = slice_to (sample_messages env rid) limit"

text \<open>
  \<open>create_message\<close> reads the service and returns a message or \<open>None\<close>; the service is
  returned beside it, as the call leaves it. \<open>if not username\<close> takes the absent session
  and the empty user name alike.
\<close>

definition create_message ::
  "msg_env \<Rightarrow> string \<Rightarrow> string \<Rightarrow> string \<Rightarrow> MessagingService
     \<Rightarrow> Message option \<times> MessagingService" where
  "create_message env session_id rid body self =
     (case map_of (user_sessions self) session_id of
        None \<Rightarrow> (None, self)
      | Some uname \<Rightarrow>
          if uname = [] then (None, self)
          else
            (case map_of (chat_rooms self) rid of
               None \<Rightarrow> (None, self)
             | Some room \<Rightarrow>
                 if uname \<notin> set (participants room) then (None, self)
                 else (Some \<lparr>msg_id = uuid4 env 0, sender = uname, msg_room_id = rid,
                              content = body,
                              timestamp = isoformat (datetime_now env 0),
                              read_by = [uname]\<rparr>, self)))"



section \<open>app/api/routes/chat.py\<close>

text \<open>
  The module keeps the open WebSockets by session id, next to the global service. A
  WebSocket is a number; whether its \<open>send_text\<close> raises is given per broadcast.
\<close>

record chat_state =
  messaging_service :: MessagingService
  ws_connections :: "(string \<times> nat) list"

datatype ws_open = Accepted | Closed nat

text \<open>\<open>chat_websocket\<close> up to its receive loop.\<close>

definition chat_websocket_open :: "string \<Rightarrow> nat \<Rightarrow> chat_state \<Rightarrow> ws_open \<times> chat_state" where
  "chat_websocket_open session_id websocket cs =
     (case map_of (user_sessions (messaging_service cs)) session_id of
        None \<Rightarrow> (Closed 1008, cs)
      | Some uname \<Rightarrow>
          (let svc = messaging_service cs;
               svc' = (case map_of (connected_users svc) uname of
                         None \<Rightarrow> svc
                       | Some user \<Rightarrow>
                           svc\<lparr>connected_users := AList.update uname
                                  (user\<lparr>is_online := True\<rparr>) (connected_users svc)\<rparr>)
           in (Accepted,
               cs\<lparr>ws_connections := AList.update session_id websocket (ws_connections cs),
                  messaging_service := svc'\<rparr>)))"

text \<open>The handler of \<open>WebSocketDisconnect\<close> in \<open>chat_websocket\<close>.\<close>

definition chat_websocket_disconnect :: "string \<Rightarrow> chat_state \<Rightarrow> chat_state" where
  "chat_websocket_disconnect session_id cs =
     (let svc = messaging_service cs;
          cs1 = cs\<lparr>ws_connections := AList.delete session_id (ws_connections cs)\<rparr>
      in case map_of (user_sessions svc) session_id of
           None \<Rightarrow> cs1
         | Some uname \<Rightarrow>
             (case map_of (connected_users svc) uname of
                None \<Rightarrow> cs1
              | Some user \<Rightarrow>
                  cs1\<lparr>messaging_service := svc\<lparr>connected_users := AList.update uname
                         (user\<lparr>is_online := False\<rparr>) (connected_users svc)\<rparr>\<rparr>))"

datatype payload =
    MessageDict Message
  | TypingDict string string
  | OtherDict "(string \<times> string) list"

fun payload_room_id :: "payload \<Rightarrow> string option" where
  "payload_room_id (MessageDict m) = Some (msg_room_id m)"
| "payload_room_id (TypingDict rid uname) = Some rid"
| "payload_room_id (OtherDict d) = map_of d ''room_id''"

text \<open>
  What \<open>await websocket.send_text(...)\<close> does for one recipient: it returns, it raises an
  \<open>Exception\<close>, or it raises an exception outside \<open>Exception\<close> (such as
  \<open>CancelledError\<close>), which \<open>except Exception\<close> lets through.
\<close>

datatype send_outcome = Delivered | Raises string | Propagates string

datatype send_event = Sent string nat payload | SendError string

text \<open>How a call of \<open>broadcast_to_room\<close> ends: by returning or by an exception.\<close>

datatype broadcast_end = Completed | Failed py_exc | Interrupted string

text \<open>
  \<open>broadcast_to_room\<close> is suspended at each \<open>await\<close> of a send, and other handlers of
  the same event loop run meanwhile. Of what they do, the model takes the calls that
  touch the session registry and the table of open WebSockets: a login, the opening and
  the closing of a WebSocket. None of them changes a room.
\<close>

datatype registry_event = Login string string string | Open string nat | Close string

fun run_event :: "settings \<Rightarrow> msg_env \<Rightarrow> registry_event \<Rightarrow> chat_state \<Rightarrow> chat_state" where
  "run_event cfg env (Login u p a) cs =
     cs\<lparr>messaging_service := snd (authenticate_user env cfg u p a (messaging_service cs))\<rparr>"
| "run_event cfg env (Open sid ws) cs = snd (chat_websocket_open sid ws cs)"
| "run_event cfg env (Close sid) cs = chat_websocket_disconnect sid cs"

fun run_events :: "settings \<Rightarrow> (msg_env \<times> registry_event) list \<Rightarrow> chat_state \<Rightarrow> chat_state" where
  "run_events cfg [] cs = cs"
| "run_events cfg ((env, e) # rest) cs = run_events cfg rest (run_event cfg env e cs)"

text \<open>
  The running broadcast: the shared state as it is now, the number of sends awaited so
  far, and what has been sent or logged.
\<close>

record broadcast_run =
  now_state :: chat_state
  sends :: nat
  sent_log :: "send_event list"

text \<open>
  The inner loop, \<open>for session_id, username in user_sessions.items()\<close>, for one
  participant. The iterator was made when the dictionary had \<open>n0\<close> entries and stands
  at position \<open>i\<close>; each step first compares the size of the dictionary as it is now
  with \<open>n0\<close> and raises \<open>RuntimeError\<close> when they differ, outside the \<open>try\<close>. A send runs
  the events of \<open>during\<close> for its number while it is suspended.
\<close>

function session_loop ::
  "settings \<Rightarrow> (nat \<Rightarrow> send_outcome) \<Rightarrow> (nat \<Rightarrow> (msg_env \<times> registry_event) list) \<Rightarrow> payload
     \<Rightarrow> string option \<Rightarrow> string \<Rightarrow> nat \<Rightarrow> nat \<Rightarrow> broadcast_run
     \<Rightarrow> broadcast_end \<times> broadcast_run" where
  "session_loop cfg sink during msg exclude_session participant n0 i run =
     (let sessions = user_sessions (messaging_service (now_state run)) in
      if length sessions \<noteq> n0
      then (Failed (RuntimeError ''dictionary changed size during iteration''), run)
      else if n0 \<le> i then (Completed, run)
      else
        (case sessions ! i of (session_id, uname) \<Rightarrow>
           if uname = participant \<and> exclude_session \<noteq> Some session_id
           then (case map_of (ws_connections (now_state run)) session_id of
                   None \<Rightarrow>
                     session_loop cfg sink during msg exclude_session participant n0 (Suc i)
                       run
                 | Some websocket \<Rightarrow>
                     (let run1 = run\<lparr>now_state := run_events cfg (during (sends run))
                                                     (now_state run),
                                      sends := Suc (sends run)\<rparr>
                      in case sink websocket of
                           Delivered \<Rightarrow>
                             session_loop cfg sink during msg exclude_session participant n0
                               (Suc i)
                               (run1\<lparr>sent_log := sent_log run1
                                        @ [Sent session_id websocket msg]\<rparr>)
                         | Raises m \<Rightarrow>
                             session_loop cfg sink during msg exclude_session participant n0
                               (Suc i)
                               (run1\<lparr>sent_log := sent_log run1 @ [SendError uname]\<rparr>)
                         | Propagates m \<Rightarrow> (Interrupted m, run1)))
           else session_loop cfg sink during msg exclude_session participant n0 (Suc i) run))"
  by pat_completeness auto
termination
  by (relation "measure (\<lambda>(cfg, sink, during, msg, exclude_session, participant, n0, i, run).
                  n0 - i)") auto

declare session_loop.simps [simp del]

text \<open>
  The outer loop, \<open>for participant in room.participants\<close>; a new iterator over the
  sessions is made for each participant.
\<close>

fun participant_loop ::
  "settings \<Rightarrow> (nat \<Rightarrow> send_outcome) \<Rightarrow> (nat \<Rightarrow> (msg_env \<times> registry_event) list) \<Rightarrow> payload
     \<Rightarrow> string option \<Rightarrow> string list \<Rightarrow> broadcast_run \<Rightarrow> broadcast_end \<times> broadcast_run" where
  "participant_loop cfg sink during msg exclude_session [] run = (Completed, run)"
| "participant_loop cfg sink during msg exclude_session (participant # rest) run =
     (case session_loop cfg sink during msg exclude_session participant
             (length (user_sessions (messaging_service (now_state run)))) 0 run of
        (Completed, run') \<Rightarrow> participant_loop cfg sink during msg exclude_session rest run'
      | (Failed e, run') \<Rightarrow> (Failed e, run')
      | (Interrupted m, run') \<Rightarrow> (Interrupted m, run'))"

definition broadcast_to_room ::
  "settings \<Rightarrow> (nat \<Rightarrow> send_outcome) \<Rightarrow> (nat \<Rightarrow> (msg_env \<times> registry_event) list) \<Rightarrow> payload
     \<Rightarrow> string option \<Rightarrow> chat_state \<Rightarrow> broadcast_end \<times> broadcast_run" where
  "broadcast_to_room cfg sink during msg exclude_session cs =
     (let run = \<lparr>now_state = cs, sends = 0, sent_log = []\<rparr> in
      case payload_room_id msg of
        None \<Rightarrow> (Completed, run)
      | Some rid \<Rightarrow>
          (case map_of (chat_rooms (messaging_service cs)) rid of
             None \<Rightarrow> (Completed, run)
           | Some room \<Rightarrow>
               participant_loop cfg sink during msg exclude_session (participants room)
                 run))"

text \<open>
  What one pass over the sessions sends for one participant when nothing else runs:
  the sessions in order, each against the participant.
\<close>

definition quiet_send ::
  "(nat \<Rightarrow> send_outcome) \<Rightarrow> payload \<Rightarrow> string option \<Rightarrow> (string \<times> nat) list \<Rightarrow> string
     \<Rightarrow> string \<times> string \<Rightarrow> send_event list" where
  "quiet_send sink msg exclude_session conns participant =
     (\<lambda>(session_id, uname).
        if uname = participant \<and> exclude_session \<noteq> Some session_id
        then (case map_of conns session_id of
                None \<Rightarrow> []
              | Some websocket \<Rightarrow>
                  (case sink websocket of
                     Delivered \<Rightarrow> [Sent session_id websocket msg]
                   | Raises m \<Rightarrow> [SendError uname]
                   | Propagates m \<Rightarrow> []))
        else [])"

text \<open>Values for the concrete checks of the cipher and of the service.\<close>

definition demo_key :: bytes where
  "demo_key = replicate 32 7"

definition demo_cipher :: AESGCMCipher where
  "demo_cipher = \<lparr>cipher_key = demo_key\<rparr>"

definition demo_ip_address :: "string \<Rightarrow> ip_addr option" where
  "demo_ip_address s =
     (if s = ''10.8.0.5'' then Some (IPv4Address 0x0A080005)
      else if s = ''192.168.1.5'' then Some (IPv4Address 0xC0A80105)
      else None)"

definition demo_ip_network :: "string \<Rightarrow> ip_net option" where
  "demo_ip_network s = (if s = ''10.8.0.0/24'' then Some (IPv4Net 0x0A080000 24) else None)"

definition demo_msg_env :: msg_env where
  "demo_msg_env =
     \<lparr>uuid4 = (\<lambda>k. ''3f2b8c1e-77aa-4c1d-9e51-0000000000'' @ pad2 k),
      datetime_now = (\<lambda>k. \<lparr>dt_year = 2025, dt_month = 5, dt_day = 17, dt_hour = 9,
                           dt_minute = 41, dt_second = 7, dt_microsecond = 0\<rparr>),
      utc_seconds = 1000,
      ip_address = demo_ip_address,
      ip_network = demo_ip_network,
      get_password_hash = (\<lambda>p. ''$2b$'' @ p),
      verify_password = (\<lambda>p h. h = ''$2b$'' @ p),
      rsa_lib = demo_lib,
      str_lower = ascii_lower\<rparr>"

definition demo_service :: MessagingService where
  "demo_service = MessagingService_init demo_msg_env"





definition demo_session_id :: string where
  "demo_session_id = uuid4 demo_msg_env 0"

definition demo_chat :: chat_state where
  "demo_chat =
     \<lparr>messaging_service =
        (snd (register_user demo_msg_env ''usuario3'' ''password3'' ''Usuario Demo 3''
                demo_service))
        \<lparr>user_sessions := [(''s1'', ''usuario1''), (''s2'', ''usuario2''), (''s3'', ''usuario3'')]\<rparr>,
      ws_connections = [(''s1'', 1), (''s2'', 2), (''s3'', 3)]\<rparr>"



definition nameless_service :: MessagingService where
  "nameless_service =
     snd (authenticate_user demo_msg_env default_settings [] ''secreto'' ''10.8.0.5''
            (snd (register_user demo_msg_env [] ''secreto'' ''Sin Nombre'' demo_service)))"

section \<open>Properties of the key-encapsulation manager\<close>

lemma length_i2osp: "i2osp x k = Inr bs \<Longrightarrow> length bs = k"
  by (auto simp: i2osp_def split: if_splits)

lemma length_rsa_encrypt:
  "rsa_encrypt L pk m = Inr ct \<Longrightarrow> length ct = (pub_key_size pk + 7) div 8"
  by (auto simp: rsa_encrypt_def Let_def length_i2osp split: sum.splits)

lemma length_os_urandom: "length (os_urandom rnd n) = n"
  by (simp add: os_urandom_def)

lemma encapsulate_own_key:
  "keypair km = Some sk \<Longrightarrow> encapsulate L km None = Inr (ss, ct) \<Longrightarrow>
     length ss = 32 \<and> length ct = (pub_key_size (kp_public_key_obj sk) + 7) div 8"
  by (auto simp: encapsulate_def Let_def length_os_urandom length_rsa_encrypt split: sum.splits)

lemma rsa_encrypt_succeeds:
  assumes "oaep_encode L ((pub_key_size pk + 7) div 8) m = Inr em"
      and "0 < pub_n pk" and "pub_n pk \<le> 256 ^ ((pub_key_size pk + 7) div 8)"
  shows "\<exists>ct. rsa_encrypt L pk m = Inr ct"
proof -
  have "em ^ pub_e pk mod pub_n pk < pub_n pk"
    using assms(2) by simp
  then have "\<not> 256 ^ ((pub_key_size pk + 7) div 8) \<le> em ^ pub_e pk mod pub_n pk"
    using assms(3) by linarith
  then show ?thesis
    using assms(1) by (simp add: rsa_encrypt_def Let_def i2osp_def)
qed

section \<open>Properties of the connection lifecycle\<close>

lemma cleanup_fields:
  "connected (cleanup s) = False" "server (cleanup s) = None"
  "connection_time (cleanup s) = 0" "vpn_ip (cleanup s) = None"
  "bytes_sent (cleanup s) = 0" "bytes_received (cleanup s) = 0"
  "latency (cleanup s) = 0" "aes (cleanup s) = None"
  "tun (cleanup s) = None" "status_task (cleanup s) = None"
  by (simp_all add: cleanup_def Let_def split: option.splits)

lemma cleanup_kyber: "kyber (cleanup s) = kyber s"
  by (simp add: cleanup_def Let_def split: option.splits)

lemma cancel_await_settled:
  "t < length ts \<Longrightarrow> await_task t (cancel_task t ts) ! t = Done"
  by (cases "ts ! t") (auto simp: cancel_task_def await_task_def)

lemma cleanup_task:
  "status_task s = Some t \<Longrightarrow> t < length (tasks s) \<Longrightarrow> tasks (cleanup s) ! t = Done"
  by (simp add: cleanup_def Let_def cancel_await_settled split: option.splits)

lemma cleanup_tun:
  "stopped_tuns (cleanup s) =
     (case tun s of None \<Rightarrow> stopped_tuns s | Some T \<Rightarrow> stopped_tuns s @ [TunManager_stop T])"
  by (simp add: cleanup_def Let_def split: option.splits)

lemma get_status_disconnected: "\<not> connected s \<Longrightarrow> get_status now s = disconnected_status"
  by (simp add: get_status_def disconnected_status_def)

lemma connect_body_failure_state:
  assumes "connect_body cfg env srv self = Inl (e, s1)"
  shows "status_task s1 = status_task self \<and> tasks s1 = tasks self \<and>
         stopped_tuns s1 = stopped_tuns self \<and>
         (tun s1 = tun self \<or> (\<exists>T. tun s1 = Some T \<and> TunManager_init (TUN_NAME cfg) ''tun'' 1500 = Inr T))"
  using assms
  by (auto simp: connect_body_def Let_def split: prod.splits sum.splits option.splits)

lemma demo_lib_encapsulate:
  assumes "keypair km = Some sk" and "pub_n (kp_public_key_obj sk) = 2 ^ ks - 1"
      and "pub_key_size (kp_public_key_obj sk) = ks" and "0 < ks"
  shows "\<exists>ct. encapsulate demo_lib km None = Inr (os_urandom (\<lambda>i. 0) 32, ct)"
proof -
  let ?pk = "kp_public_key_obj sk"
  let ?q = "(ks + 7) div 8"
  have "ks \<le> 8 * ?q" by presburger
  then have "(2::nat) ^ ks \<le> 2 ^ (8 * ?q)" by (simp add: power_increasing)
  also have "\<dots> = 256 ^ ?q" by (simp add: power_mult)
  finally have le: "pub_n ?pk \<le> 256 ^ ((pub_key_size ?pk + 7) div 8)"
    using assms(2,3) by simp
  have "(1::nat) < 2 ^ ks"
    using assms(4) by (intro one_less_power) simp_all
  then have pos: "0 < pub_n ?pk"
    using assms(2) by simp
  have enc: "oaep_encode demo_lib ((pub_key_size ?pk + 7) div 8)
               (os_urandom (entropy demo_lib) 32) = Inr 2"
    by (simp add: demo_lib_def)
  obtain ct where "rsa_encrypt demo_lib ?pk (os_urandom (entropy demo_lib) 32) = Inr ct"
    using rsa_encrypt_succeeds [OF enc pos le] by blast
  then show ?thesis
    by (simp add: encapsulate_def assms(1) Let_def) (simp add: demo_lib_def)
qed

lemma demo_generate_fresh:
  "\<exists>kp km. generate_keypair demo_lib (kyber fresh_manager) = (Inr kp, km) \<and>
     (\<exists>sk. keypair km = Some sk \<and> pub_n (kp_public_key_obj sk) = 2 ^ 3072 - 1 \<and>
           pub_key_size (kp_public_key_obj sk) = 3072)"
  by (simp add: fresh_manager_def generate_keypair_def generate_private_key_def
        demo_lib_def demo_numbers_def Let_def public_key_of_def)

lemma server1: "find_server (VPN_SERVERS default_settings) ''server1'' =
   Some \<lparr>srv_id = ''server1'', srv_name = ''Servidor Principal'',
          srv_location = ''Madrid, Espa'' @ [CHR 0xC3, CHR 0xB1] @ ''a'',
          srv_ip = ''192.168.1.1'', srv_port = 1194, srv_status = ''online'',
          srv_latency = Some 25\<rparr>"
  by (simp add: find_server_def default_settings_def)

lemma vpn_ip_demo: "ipv4_str 168296450 = ''10.8.0.2''"
  by (simp add: ipv4_str_def octet_str_def digit_char_def)

lemma demo_failed_result:
  "fst demo_failed = \<lparr>success = False,
      message = ''Error al establecer conexi'' @ o_acute @ ''n: no running event loop'',
      vpnIp = None\<rparr>"
proof -
  obtain kp km sk where g: "generate_keypair demo_lib (kyber fresh_manager) = (Inr kp, km)"
    "keypair km = Some sk" "pub_n (kp_public_key_obj sk) = 2 ^ 3072 - 1"
    "pub_key_size (kp_public_key_obj sk) = 3072"
    using demo_generate_fresh by blast
  obtain ct where e: "encapsulate demo_lib km None = Inr (os_urandom (\<lambda>i. 0) 32, ct)"
    using demo_lib_encapsulate [OF g(2,3,4)] by auto
  have l: "lib failing_env = demo_lib" "create_task_exc failing_env = Some (RuntimeError ''no running event loop'')"
    "IPv4Network failing_env = demo_network"
    by (simp_all add: failing_env_def demo_env_def)
  have cfg: "TUN_NAME default_settings = ''tun0''" "VPN_SUBNET default_settings = ''10.8.0.0/24''"
    by (simp_all add: default_settings_def)
  have "\<exists>s1. connect_body default_settings failing_env
          \<lparr>srv_id = ''server1'', srv_name = ''Servidor Principal'',
          srv_location = ''Madrid, Espa'' @ [CHR 0xC3, CHR 0xB1] @ ''a'',
          srv_ip = ''192.168.1.1'', srv_port = 1194, srv_status = ''online'',
          srv_latency = Some 25\<rparr> fresh_manager = Inl (RuntimeError ''no running event loop'', s1)"
    by (simp add: connect_body_def l g(1) e cfg AESGCMCipher_init_def length_os_urandom
          TunManager_init_def demo_network_def network_getitem_def broadcast_address_def Let_def)
  then show ?thesis
    by (auto simp: demo_failed_def connect_def server1 fresh_manager_def)
qed

text \<open>
  C2. When \<open>connect\<close>, called on a manager that is not connected and for a server of
  the catalogue, reports a failure, an exception was raised in its body and the manager
  went through \<open>cleanup\<close>: every connection field holds its disconnected value, no
  cipher, TUN object or task is held, a task the manager held has been cancelled and
  awaited, a TUN object held when the exception was raised has been stopped, and
  \<open>get_status\<close> reports the disconnected snapshot.
\<close>

theorem connect_failure_rollback:
  assumes "\<not> connected self"
      and "find_server (VPN_SERVERS cfg) sid = Some srv"
      and "connect cfg env sid self = (r, s')"
      and "\<not> success r"
  shows "connected s' = False \<and> server s' = None \<and> connection_time s' = 0 \<and>
         vpn_ip s' = None \<and> bytes_sent s' = 0 \<and> bytes_received s' = 0 \<and>
         latency s' = 0 \<and> aes s' = None \<and> tun s' = None \<and> status_task s' = None \<and>
         get_status now s' = disconnected_status \<and>
         (\<forall>t. status_task self = Some t \<and> t < length (tasks self) \<longrightarrow> tasks s' ! t = Done) \<and>
         (\<exists>e s1. connect_body cfg env srv self = Inl (e, s1) \<and> s' = cleanup s1 \<and>
            (\<forall>T. tun s1 = Some T \<longrightarrow> stopped_tuns s' = stopped_tuns self @ [TunManager_stop T]))"
proof -
  from assms obtain e s1 where body: "connect_body cfg env srv self = Inl (e, s1)"
    and s': "s' = cleanup s1"
    by (auto simp: connect_def split: sum.splits prod.splits)
  note st = connect_body_failure_state [OF body]
  have task: "\<forall>t. status_task self = Some t \<and> t < length (tasks self) \<longrightarrow> tasks s' ! t = Done"
    using st cleanup_task [of s1] by (simp add: s')
  have tunp: "\<forall>T. tun s1 = Some T \<longrightarrow> stopped_tuns s' = stopped_tuns self @ [TunManager_stop T]"
    using st by (simp add: s' cleanup_tun)
  have "get_status now s' = disconnected_status"
    by (simp add: s' get_status_disconnected cleanup_fields)
  with task tunp body s' show ?thesis
    by (simp add: cleanup_fields)
qed

theorem connect_failure_rollback_witness:
  "\<not> connected fresh_manager \<and> \<not> success (fst demo_failed) \<and>
   connected (snd demo_failed) = False \<and> vpn_ip (snd demo_failed) = None \<and>
   tun (snd demo_failed) = None \<and> aes (snd demo_failed) = None \<and>
   get_status 2000 (snd demo_failed) = disconnected_status"
proof -
  have a: "\<not> connected fresh_manager" by (simp add: fresh_manager_def)
  have c: "connect default_settings failing_env ''server1'' fresh_manager
            = (fst demo_failed, snd demo_failed)"
    by (simp add: demo_failed_def)
  have d: "\<not> success (fst demo_failed)" by (simp add: demo_failed_result)
  from connect_failure_rollback [OF a server1 c d, of 2000] a d show ?thesis
    by simp
qed

text \<open>
  C3. On a manager with an active connection, \<open>connect\<close> returns the failure
  "Ya existe una conexion VPN activa" for every server id and leaves the manager as it
  was. The manager has no separate connecting state: \<open>connect\<close> sets \<open>connected\<close>
  without a suspension point before it, so an active connection is \<open>connected\<close>.
\<close>

theorem connect_while_connected:
  "connected self \<Longrightarrow>
     connect cfg env sid self =
       (\<lparr>success = False, message = ''Ya existe una conexi'' @ o_acute @ ''n VPN activa'',
         vpnIp = None\<rparr>, self)"
  by (simp add: connect_def)

lemma connected_manager_connected:
  "connected connected_manager \<and> vpn_ip connected_manager = Some ''10.8.0.2'' \<and>
   status_task connected_manager = Some 0 \<and> tasks connected_manager = [Running] \<and>
   bytes_sent connected_manager = 0 \<and> bytes_received connected_manager = 0 \<and>
   latency connected_manager = 25 \<and> connection_time connected_manager = 1000 \<and>
   tun connected_manager \<noteq> None \<and> aes connected_manager \<noteq> None \<and>
   stopped_tuns connected_manager = [] \<and>
   success (fst (connect default_settings demo_env ''server1'' fresh_manager))"
proof -
  obtain kp km sk where g: "generate_keypair demo_lib (kyber fresh_manager) = (Inr kp, km)"
    "keypair km = Some sk" "pub_n (kp_public_key_obj sk) = 2 ^ 3072 - 1"
    "pub_key_size (kp_public_key_obj sk) = 3072"
    using demo_generate_fresh by blast
  obtain ct where e: "encapsulate demo_lib km None = Inr (os_urandom (\<lambda>i. 0) 32, ct)"
    using demo_lib_encapsulate [OF g(2,3,4)] by auto
  have l: "lib demo_env = demo_lib" "create_task_exc demo_env = None"
    "IPv4Network demo_env = demo_network" "time_time demo_env = 1000"
    by (simp_all add: demo_env_def)
  have cfg: "TUN_NAME default_settings = ''tun0''" "VPN_SUBNET default_settings = ''10.8.0.0/24''"
    by (simp_all add: default_settings_def)
  have nc: "\<not> connected fresh_manager" "tasks fresh_manager = []" "stopped_tuns fresh_manager = []"
    by (simp_all add: fresh_manager_def)
  show ?thesis
    unfolding connected_manager_def
    by (simp add: connect_def nc server1 connect_body_def l g(1) e cfg AESGCMCipher_init_def
          length_os_urandom TunManager_init_def demo_network_def network_getitem_def
          broadcast_address_def Let_def vpn_ip_demo)
qed

theorem connect_while_connected_witness:
  "connected connected_manager \<and>
   connect default_settings demo_env ''server2'' connected_manager =
     (\<lparr>success = False, message = ''Ya existe una conexi'' @ o_acute @ ''n VPN activa'',
       vpnIp = None\<rparr>, connected_manager)"
  using connect_while_connected [of connected_manager default_settings demo_env "''server2''"]
    connected_manager_connected by simp

lemma idle_clean_cleanup: "idle_clean (cleanup s)"
  by (simp add: idle_clean_def cleanup_fields)

lemma idle_clean_init: "VPNManager_init lw cfg = Inr s \<Longrightarrow> idle_clean s \<and> \<not> connected s"
  by (auto simp: VPNManager_init_def idle_clean_def split: sum.splits)

lemma connect_body_connected: "connect_body cfg env srv self = Inr s \<Longrightarrow> connected s"
  by (auto simp: connect_body_def Let_def split: prod.splits sum.splits option.splits)

lemma idle_clean_connect: "idle_clean self \<Longrightarrow> idle_clean (snd (connect cfg env sid self))"
  by (auto simp: connect_def idle_clean_cleanup split: option.splits sum.splits
           dest: connect_body_connected intro: idle_clean_def [THEN iffD2])

lemma idle_clean_disconnect: "idle_clean self \<Longrightarrow> idle_clean (snd (disconnect self))"
  by (simp add: disconnect_def idle_clean_cleanup)

lemma idle_clean_tick: "idle_clean self \<Longrightarrow> idle_clean (update_status_tick l i self)"
  by (auto simp: update_status_tick_def idle_clean_def)

text \<open>
  C8. \<open>disconnect\<close> reports success and leaves the manager disconnected, with
  \<open>get_status\<close> reporting \<open>connected = False\<close> and zero uptime, counters and latency.
  On a manager that is not connected it changes nothing; on a connected one, or one that
  is idle with clean fields (as every manager reached from a fresh one is), the counters,
  the latency and the connection time are zero afterwards.
\<close>

theorem disconnect_resets:
  assumes "disconnect self = (r, s')"
  shows "success r \<and> connected s' = False \<and> get_status now s' = disconnected_status \<and>
         (\<not> connected self \<longrightarrow> s' = self) \<and>
         (connected self \<or> idle_clean self \<longrightarrow>
            bytes_sent s' = 0 \<and> bytes_received s' = 0 \<and> latency s' = 0 \<and>
            connection_time s' = 0 \<and> vpn_ip s' = None \<and> server s' = None) \<and>
         (connected self \<longrightarrow>
            aes s' = None \<and> tun s' = None \<and> status_task s' = None \<and>
            (\<forall>t. status_task self = Some t \<and> t < length (tasks self) \<longrightarrow> tasks s' ! t = Done))"
proof (cases "connected self")
  case True
  with assms have s': "s' = cleanup self" and r: "success r"
    by (auto simp: disconnect_def)
  show ?thesis
    using True r by (simp add: s' cleanup_fields cleanup_task get_status_disconnected)
next
  case False
  with assms have s': "s' = self" and r: "success r"
    by (auto simp: disconnect_def)
  show ?thesis
    using False r by (auto simp: s' get_status_disconnected idle_clean_def)
qed

theorem disconnect_resets_witness:
  "connected connected_manager \<and>
   success (fst (disconnect connected_manager)) \<and>
   \<not> connected (snd (disconnect connected_manager)) \<and>
   get_status 5000 (snd (disconnect connected_manager)) = disconnected_status \<and>
   tasks (snd (disconnect connected_manager)) = [Done] \<and>
   \<not> connected fresh_manager \<and> idle_clean fresh_manager \<and>
   disconnect fresh_manager =
     (\<lparr>success = True, message = ''No hay conexi'' @ o_acute @ ''n activa'', vpnIp = None\<rparr>,
      fresh_manager)"
proof -
  have c: "connected connected_manager" "status_task connected_manager = Some 0"
    "tasks connected_manager = [Running]"
    using connected_manager_connected by simp_all
  have d: "disconnect connected_manager =
             (fst (disconnect connected_manager), snd (disconnect connected_manager))"
    by simp
  have len: "length (tasks (snd (disconnect connected_manager))) = 1"
    using c by (simp add: disconnect_def cleanup_def Let_def cancel_task_def await_task_def
                     split: option.splits)
  have f: "\<not> connected fresh_manager" "idle_clean fresh_manager"
    by (simp_all add: fresh_manager_def idle_clean_def)
  have e: "disconnect fresh_manager = (fst (disconnect fresh_manager), snd (disconnect fresh_manager))"
    by simp
  have t: "tasks (snd (disconnect connected_manager)) ! 0 = Done"
    using disconnect_resets [OF d, of 5000] c by simp
  have "tasks (snd (disconnect connected_manager)) = [Done]"
    using len t by (cases "tasks (snd (disconnect connected_manager))") auto
  moreover have "disconnect fresh_manager =
     (\<lparr>success = True, message = ''No hay conexi'' @ o_acute @ ''n activa'', vpnIp = None\<rparr>,
      fresh_manager)"
    using disconnect_resets [OF e, of 0] f by (simp add: disconnect_def)
  ultimately show ?thesis
    using disconnect_resets [OF d, of 5000] c f by simp
qed

section \<open>Properties of the symmetric channel\<close>

lemma length_demo_tag: "length k = 32 \<Longrightarrow> length (demo_tag k aad) = 16"
  by (simp add: demo_tag_def)

lemma demo_aead_correct: "aead_correct demo_aead"
  by (simp add: aead_correct_def demo_aead_def length_demo_tag)

text \<open>
  C9. With an AES-GCM primitive that decrypts what it encrypted, a cipher built on a
  32-byte key decrypts the nonce and ciphertext that its own \<open>encrypt\<close> returned, under
  the same associated data, to the plaintext.
\<close>

theorem decrypt_encrypt_roundtrip:
  assumes "aead_correct A" and "length key = 32"
      and "AESGCMCipher_init rnd0 (Some key) = Inr self"
      and "encrypt A rnd self m aad = Inr r"
  shows "decrypt A self (nonce r) (ciphertext r) aad = Inr m"
proof -
  from assms(2,3) have k: "cipher_key self = key"
    by (auto simp: AESGCMCipher_init_def)
  from assms(4) have r: "nonce r = os_urandom rnd 12"
    "aesgcm_encrypt A key (os_urandom rnd 12) m aad = Inr (ciphertext r)"
    by (auto simp: encrypt_def Let_def k split: sum.splits)
  have "aesgcm_decrypt A key (os_urandom rnd 12) (ciphertext r) aad = Plain m"
    using assms(1,2) r(2) by (simp add: aead_correct_def length_os_urandom)
  then show ?thesis
    by (simp add: decrypt_def k r(1))
qed

theorem decrypt_encrypt_roundtrip_witness:
  "aead_correct demo_aead \<and> length demo_key = 32 \<and>
   AESGCMCipher_init (\<lambda>i. 0) (Some demo_key) = Inr demo_cipher \<and>
   encrypt demo_aead (\<lambda>i. 5) demo_cipher [1, 2, 3] (Some [9]) =
     Inr \<lparr>nonce = replicate 12 5, ciphertext = [1, 2, 3] @ demo_tag demo_key (Some [9])\<rparr> \<and>
   decrypt demo_aead demo_cipher (replicate 12 5)
     ([1, 2, 3] @ demo_tag demo_key (Some [9])) (Some [9]) = Inr [1, 2, 3]"
proof -
  have l: "length demo_key = 32" by (simp add: demo_key_def)
  have i: "AESGCMCipher_init (\<lambda>i. 0) (Some demo_key) = Inr demo_cipher"
    by (simp add: AESGCMCipher_init_def l demo_cipher_def)
  have n: "os_urandom (\<lambda>i. 5) 12 = replicate 12 5"
    by (simp add: os_urandom_def map_replicate_const)
  have e: "encrypt demo_aead (\<lambda>i. 5) demo_cipher [1, 2, 3] (Some [9]) =
     Inr \<lparr>nonce = replicate 12 5, ciphertext = [1, 2, 3] @ demo_tag demo_key (Some [9])\<rparr>"
    by (simp add: encrypt_def Let_def n demo_aead_def demo_cipher_def)
  from decrypt_encrypt_roundtrip [OF demo_aead_correct l i e] demo_aead_correct l i e
  show ?thesis by simp
qed

section \<open>Properties of the messaging service\<close>

text \<open>
  C10. For a limit of at least one, \<open>get_room_messages\<close> returns the first
  \<open>min 3 limit\<close> of three fabricated sample messages, each carrying the requested room
  id, whatever the state of the service: no room, session or stored message is read.
\<close>

theorem get_room_messages_samples:
  assumes "1 \<le> limit"
  shows "length (get_room_messages env rid limit self) = nat (min 3 limit) \<and>
         (\<forall>m \<in> set (get_room_messages env rid limit self). msg_room_id m = rid) \<and>
         get_room_messages env rid limit self = take (nat limit) (sample_messages env rid) \<and>
         get_room_messages env rid limit self = get_room_messages env rid limit other"
proof -
  have len: "length (sample_messages env rid) = 3"
    by (simp add: sample_messages_def)
  have rooms: "\<forall>m \<in> set (sample_messages env rid). msg_room_id m = rid"
    by (simp add: sample_messages_def)
  have eq: "get_room_messages env rid limit self = take (nat limit) (sample_messages env rid)"
    using assms by (simp add: get_room_messages_def slice_to_def)
  have "length (get_room_messages env rid limit self) = nat (min 3 limit)"
    using assms by (simp add: eq len)
  moreover have "\<forall>m \<in> set (get_room_messages env rid limit self). msg_room_id m = rid"
    using rooms by (auto simp: eq dest: in_set_takeD)
  ultimately show ?thesis
    using eq by (simp add: get_room_messages_def)
qed

theorem get_room_messages_samples_witness:
  "(1::int) \<le> 2 \<and>
   length (get_room_messages demo_msg_env ''no-such-room'' 2 demo_service) = 2 \<and>
   map msg_room_id (get_room_messages demo_msg_env ''no-such-room'' 2 demo_service)
     = [''no-such-room'', ''no-such-room''] \<and>
   map_of (chat_rooms demo_service) ''no-such-room'' = None"
proof -
  have h: "(1::int) \<le> 2" by simp
  have t: "get_room_messages demo_msg_env ''no-such-room'' 2 demo_service =
           take 2 (sample_messages demo_msg_env ''no-such-room'')"
    using get_room_messages_samples [OF h, of demo_msg_env "''no-such-room''" demo_service]
    by simp
  have "map msg_room_id (take 2 (sample_messages demo_msg_env ''no-such-room''))
          = [''no-such-room'', ''no-such-room'']"
    by (simp add: sample_messages_def)
  moreover have "map_of (chat_rooms demo_service) ''no-such-room'' = None"
    by (simp add: demo_service_def MessagingService_init_def Let_def)
  ultimately show ?thesis
    using get_room_messages_samples [OF h, of demo_msg_env "''no-such-room''" demo_service] t
    by simp
qed

text \<open>
  C4. When the claimed address does not parse, or parses and lies outside the configured
  VPN network, \<open>authenticate_user\<close> returns a failure without a token and leaves the
  service unchanged, and the whole outcome is the same for any two pairs of user name and
  password: the user table and the password check are not reached.
\<close>

theorem authenticate_off_vpn:
  assumes "ip_address env addr = None \<or>
           (\<exists>ip net. ip_address env addr = Some ip \<and>
              ip_network env (VPN_SUBNET cfg) = Some net \<and> \<not> in_network ip net)"
  shows "authenticate_user env cfg u1 p1 addr self = authenticate_user env cfg u2 p2 addr self \<and>
         \<not> auth_success (fst (authenticate_user env cfg u1 p1 addr self)) \<and>
         auth_token (fst (authenticate_user env cfg u1 p1 addr self)) = None \<and>
         snd (authenticate_user env cfg u1 p1 addr self) = self"
proof -
  from assms have "vpn_membership env cfg addr = None \<or> vpn_membership env cfg addr = Some False"
    by (auto simp: vpn_membership_def)
  then show ?thesis
    by (auto simp: authenticate_user_def auth_failure_def)
qed

theorem authenticate_off_vpn_witness:
  "ip_address demo_msg_env ''192.168.1.5'' = Some (IPv4Address 0xC0A80105) \<and>
   ip_network demo_msg_env (VPN_SUBNET default_settings) = Some (IPv4Net 0x0A080000 24) \<and>
   \<not> in_network (IPv4Address 0xC0A80105) (IPv4Net 0x0A080000 24) \<and>
   authenticate_user demo_msg_env default_settings ''usuario1'' ''password1'' ''192.168.1.5''
       demo_service
     = authenticate_user demo_msg_env default_settings ''mallory'' ''guess'' ''192.168.1.5''
         demo_service \<and>
   \<not> auth_success (fst (authenticate_user demo_msg_env default_settings ''usuario1''
                          ''password1'' ''192.168.1.5'' demo_service)) \<and>
   auth_success (fst (authenticate_user demo_msg_env default_settings ''usuario1''
                          ''password1'' ''10.8.0.5'' demo_service))"
proof -
  have a: "ip_address demo_msg_env ''192.168.1.5'' = Some (IPv4Address 0xC0A80105)"
    by (simp add: demo_msg_env_def demo_ip_address_def)
  have n: "ip_network demo_msg_env (VPN_SUBNET default_settings) = Some (IPv4Net 0x0A080000 24)"
    by (simp add: demo_msg_env_def demo_ip_network_def default_settings_def)
  have o: "\<not> in_network (IPv4Address 0xC0A80105) (IPv4Net 0x0A080000 24)"
    by simp
  have h: "ip_address demo_msg_env ''192.168.1.5'' = None \<or>
           (\<exists>ip net. ip_address demo_msg_env ''192.168.1.5'' = Some ip \<and>
              ip_network demo_msg_env (VPN_SUBNET default_settings) = Some net \<and>
              \<not> in_network ip net)"
    using a n o by blast
  have ok: "auth_success (fst (authenticate_user demo_msg_env default_settings ''usuario1''
                          ''password1'' ''10.8.0.5'' demo_service))"
    by (simp add: authenticate_user_def vpn_membership_def demo_msg_env_def
          demo_ip_address_def demo_ip_network_def default_settings_def demo_service_def
          MessagingService_init_def Let_def)
  from authenticate_off_vpn [OF h, of "''usuario1''" "''password1''" demo_service
      "''mallory''" "''guess''"] a n o ok
  show ?thesis by blast
qed









lemma chat_websocket_open_accepts:
  "fst (chat_websocket_open sid ws cs) = Accepted \<longleftrightarrow>
     map_of (user_sessions (messaging_service cs)) sid \<noteq> None"
  by (auto simp: chat_websocket_open_def Let_def split: option.splits)






lemma nameless_service_value:
  "user_sessions nameless_service = [(demo_session_id, [])]"
  "map_of (chat_rooms nameless_service) ''general'' =
     Some \<lparr>room_id = ''general'', room_name = Some ''Canal General'',
           participants = [''usuario1'', ''usuario2'', []], is_group = True,
           created_at = datetime_now demo_msg_env 0, encryption_key = None\<rparr>"
  by (simp_all add: nameless_service_def authenticate_user_def register_user_def
        vpn_membership_def demo_msg_env_def
        demo_ip_address_def demo_ip_network_def demo_service_def MessagingService_init_def
        Let_def create_access_token_def demo_session_id_def default_settings_def)

lemma create_message_result:
  "fst (create_message env sid rid body s) =
     (case map_of (user_sessions s) sid of
        None \<Rightarrow> None
      | Some u \<Rightarrow>
          (case map_of (chat_rooms s) rid of
             None \<Rightarrow> None
           | Some room \<Rightarrow>
               if u = [] \<or> u \<notin> set (participants room) then None
               else Some \<lparr>msg_id = uuid4 env 0, sender = u, msg_room_id = rid, content = body,
                          timestamp = isoformat (datetime_now env 0), read_by = [u]\<rparr>))"
  by (simp add: create_message_def split: option.splits)

text \<open>
  C6 (where the code departs from it). A user registered under the empty name and logged
  in from the VPN holds a session that exists, in a room that exists and lists the empty
  name among its participants; the WebSocket endpoint accepts the session, and
  \<open>create_message\<close> returns \<open>None\<close> for it.
\<close>

theorem create_message_empty_username:
  "map_of (user_sessions nameless_service) demo_session_id = Some [] \<and>
   map_option (\<lambda>room. [] \<in> set (participants room))
       (map_of (chat_rooms nameless_service) ''general'') = Some True \<and>
   fst (chat_websocket_open demo_session_id 1
          \<lparr>messaging_service = nameless_service, ws_connections = []\<rparr>) = Accepted \<and>
   create_message demo_msg_env demo_session_id ''general'' ''hola'' nameless_service
     = (None, nameless_service)"
  by (simp add: nameless_service_value chat_websocket_open_accepts create_message_def)


end
